theory Spec2Isabelle
  imports Complex_Main
begin

section \<open>The forward rate agreement of ql/instruments/forwardrateagreement.cpp\<close>

text \<open>
  A shallow embedding of the class \<open>ForwardRateAgreement\<close>. The C++ type \<open>Real\<close>
  (and \<open>Rate\<close>, \<open>Time\<close>, \<open>DiscountFactor\<close>) is read as the mathematical reals, so
  every formula below is the formula of the source with exact arithmetic. A division
  is HOL's total division: where the divisor is zero the model has the value \<open>0\<close> and
  the C++ \<open>double\<close> is an infinity or not a number. The theorems state the formulas
  as the source writes them, and the concrete evaluations have divisors that are not
  zero. A \<open>Date\<close> is its serial number. A member \<open>x_\<close> of the class is the record
  field \<open>x_m\<close>.
\<close>

subsection \<open>Errors\<close>

text \<open>
  \<open>RequireFailed msg\<close> is the exception thrown by a failing \<open>QL_REQUIRE(cond, msg)\<close> of
  this file. \<open>EmptyHandle\<close> is the exception thrown by \<open>Handle::operator->\<close> on an empty
  handle. \<open>MissingFixing\<close> is an exception thrown by \<open>IborIndex::fixing\<close>. Dereferencing
  a null \<open>shared_ptr\<close> is undefined behaviour in C++; the model makes it the failure
  \<open>NullPointer\<close>, after which nothing is constructed or computed. A cast of a real to
  \<open>Integer\<close> whose value does not fit, and a read of a member that no constructor
  initialised, are undefined as well, and are the failure \<open>Undefined\<close>. \<open>NoDayCounter\<close>
  is the exception of a default-constructed \<open>InterestRate\<close> asked for its day counter.
\<close>

datatype error =
    RequireFailed string
  | EmptyHandle
  | MissingFixing
  | NullPointer
  | Undefined
  | NoDayCounter

subsection \<open>Collaborators, taken through their interfaces\<close>

text \<open>
  Calendars, day counters, term structures and indexes are not part of this file.
  Each is a record of the member functions that the file calls. \<open>adjust\<close>,
  \<open>advance\<close>, \<open>yearFraction\<close> and \<open>discount\<close> are taken to return a value; the fixing
  of an index may fail.
\<close>

type_synonym Date = int

datatype PositionType = Long | Short

datatype Compounding = Simple | Compounded | Continuous | SimpleThenCompounded
  | CompoundedThenSimple

datatype Frequency = NoFrequency | Once | Annual | Semiannual | Quarterly | Monthly

datatype BusinessDayConvention = Following | ModifiedFollowing | Preceding
  | ModifiedPreceding | Unadjusted | HalfMonthModifiedFollowing | Nearest

datatype TimeUnit = Days | Weeks | Months | Years

record Calendar =
  adjust :: "Date \<Rightarrow> BusinessDayConvention \<Rightarrow> Date"
  advance :: "Date \<Rightarrow> int \<Rightarrow> TimeUnit \<Rightarrow> BusinessDayConvention \<Rightarrow> Date"

record DayCounter =
  dc_name :: string
  yearFraction :: "Date \<Rightarrow> Date \<Rightarrow> real"

record InterestRate =
  rate :: real
  ir_dayCounter :: DayCounter
  ir_compounding :: Compounding
  ir_frequency :: Frequency

record YieldTermStructure =
  discount :: "Date \<Rightarrow> real"
  yts_dayCounter :: DayCounter
  yts_calendar :: Calendar

text \<open>
  An \<open>IborIndex\<close>: \<open>ibor_fixing\<close> fails when the fixing is not available, and the
  forwarding term structure is a handle, which may be empty (\<open>None\<close>).
\<close>

record IborIndex =
  ibor_dayCounter :: DayCounter
  ibor_fixingCalendar :: Calendar
  ibor_businessDayConvention :: BusinessDayConvention
  ibor_fixingDate :: "Date \<Rightarrow> Date"
  ibor_maturityDate :: "Date \<Rightarrow> Date"
  ibor_fixing :: "Date \<Rightarrow> error + real"
  ibor_forwardingTermStructure :: "YieldTermStructure option"

text \<open>\<open>Handle<T>::operator->\<close>: an empty handle cannot be dereferenced.\<close>

definition deref :: "'a option \<Rightarrow> error + 'a" where
  "deref h = (case h of None \<Rightarrow> Inl EmptyHandle | Some x \<Rightarrow> Inr x)"

subsection \<open>The instrument\<close>

text \<open>
  The contract terms, then the mutable results. \<open>index_m\<close> is a \<open>shared_ptr\<close> (\<open>None\<close> is
  null), \<open>discountCurve_m\<close> a handle (\<open>None\<close> is empty). \<open>fixingDays_m\<close> is \<open>None\<close>
  where no constructor initialises it. A result that was never assigned is \<open>None\<close>.
  \<open>NPV_m\<close>, \<open>errorEstimate_m\<close> and \<open>calculated_m\<close> are the members inherited from
  \<open>Instrument\<close> and \<open>LazyObject\<close>.
\<close>

record FRA =
  fraType_m :: PositionType
  notionalAmount_m :: real
  index_m :: "IborIndex option"
  useIndexedCoupon_m :: bool
  dayCounter_m :: DayCounter
  calendar_m :: Calendar
  businessDayConvention_m :: BusinessDayConvention
  valueDate_m :: Date
  maturityDate_m :: Date
  discountCurve_m :: "YieldTermStructure option"
  fixingDays_m :: "real option"
  strikeForwardRate_m :: InterestRate
  forwardRate_m :: "InterestRate option"
  amount_m :: "real option"
  NPV_m :: "real option"
  errorEstimate_m :: "real option"
  calculated_m :: bool

text \<open>\<open>InterestRate(r, dc, comp, freq)\<close>; with \<open>Simple\<close> and \<open>Once\<close> it cannot fail.\<close>

definition mkInterestRate ::
  "real \<Rightarrow> DayCounter \<Rightarrow> Compounding \<Rightarrow> Frequency \<Rightarrow> InterestRate" where
  "mkInterestRate r dc c f =
     \<lparr>rate = r, ir_dayCounter = dc, ir_compounding = c, ir_frequency = f\<rparr>"

subsection \<open>Constructors\<close>

text \<open>
  The constructor from an index and explicit dates (lines 28-54). The member
  initialisers dereference \<open>index\<close>; the body adjusts the maturity date, then checks
  the notional, then the dates. \<open>fixingDays_\<close> is not initialised.
\<close>

definition ForwardRateAgreement_index ::
  "Date \<Rightarrow> Date \<Rightarrow> PositionType \<Rightarrow> real \<Rightarrow> real \<Rightarrow> IborIndex option
     \<Rightarrow> YieldTermStructure option \<Rightarrow> bool \<Rightarrow> error + FRA" where
  "ForwardRateAgreement_index valueDate maturityDate type strikeForwardRate notionalAmount
       index discountCurve useIndexedCoupon =
     (case index of
        None \<Rightarrow> Inl NullPointer
      | Some ix \<Rightarrow>
          (let cal = ibor_fixingCalendar ix;
               bdc = ibor_businessDayConvention ix;
               maturityDate' = adjust cal maturityDate bdc
           in if \<not> notionalAmount > 0
              then Inl (RequireFailed ''notionalAmount must be positive'')
              else if \<not> valueDate < maturityDate'
              then Inl (RequireFailed ''valueDate must be earlier than maturityDate'')
              else Inr \<lparr>fraType_m = type,
                        notionalAmount_m = notionalAmount,
                        index_m = Some ix,
                        useIndexedCoupon_m = useIndexedCoupon,
                        dayCounter_m = ibor_dayCounter ix,
                        calendar_m = cal,
                        businessDayConvention_m = bdc,
                        valueDate_m = valueDate,
                        maturityDate_m = maturityDate',
                        discountCurve_m = discountCurve,
                        fixingDays_m = None,
                        strikeForwardRate_m =
                          mkInterestRate strikeForwardRate (ibor_dayCounter ix) Simple Once,
                        forwardRate_m = None,
                        amount_m = None,
                        NPV_m = None,
                        errorEstimate_m = None,
                        calculated_m = False\<rparr>))"

text \<open>
  The constructor from an index and the value date only (lines 56-64): it delegates
  with \<open>index->maturityDate(valueDate)\<close>.
\<close>

definition ForwardRateAgreement_index_tenor ::
  "Date \<Rightarrow> PositionType \<Rightarrow> real \<Rightarrow> real \<Rightarrow> IborIndex option
     \<Rightarrow> YieldTermStructure option \<Rightarrow> bool \<Rightarrow> error + FRA" where
  "ForwardRateAgreement_index_tenor valueDate type strikeForwardRate notionalAmount
       index discountCurve useIndexedCoupon =
     (case index of
        None \<Rightarrow> Inl NullPointer
      | Some ix \<Rightarrow>
          ForwardRateAgreement_index valueDate (ibor_maturityDate ix valueDate) type
            strikeForwardRate notionalAmount index discountCurve useIndexedCoupon)"

text \<open>
  The constructor from a discount curve (lines 66-90). The member initialisers
  dereference the handle; the body checks the notional, then adjusts the maturity
  date, then checks the dates. There is no index and \<open>useIndexedCoupon_\<close> is false.
\<close>

definition ForwardRateAgreement_curve ::
  "Date \<Rightarrow> Date \<Rightarrow> PositionType \<Rightarrow> real \<Rightarrow> real \<Rightarrow> YieldTermStructure option
     \<Rightarrow> real \<Rightarrow> BusinessDayConvention \<Rightarrow> error + FRA" where
  "ForwardRateAgreement_curve valueDate maturityDate type strikeForwardRate notionalAmount
       discountCurve fixingDays businessDayConvention =
     (case deref discountCurve of
        Inl e \<Rightarrow> Inl e
      | Inr ts \<Rightarrow>
          (if \<not> notionalAmount > 0
           then Inl (RequireFailed ''notionalAmount must be positive'')
           else
             (let maturityDate' = adjust (yts_calendar ts) maturityDate businessDayConvention
              in if \<not> valueDate < maturityDate'
                 then Inl (RequireFailed ''valueDate must be earlier than maturityDate'')
                 else Inr \<lparr>fraType_m = type,
                           notionalAmount_m = notionalAmount,
                           index_m = None,
                           useIndexedCoupon_m = False,
                           dayCounter_m = yts_dayCounter ts,
                           calendar_m = yts_calendar ts,
                           businessDayConvention_m = businessDayConvention,
                           valueDate_m = valueDate,
                           maturityDate_m = maturityDate',
                           discountCurve_m = discountCurve,
                           fixingDays_m = Some fixingDays,
                           strikeForwardRate_m =
                             mkInterestRate strikeForwardRate (yts_dayCounter ts) Simple Once,
                           forwardRate_m = None,
                           amount_m = None,
                           NPV_m = None,
                           errorEstimate_m = None,
                           calculated_m = False\<rparr>)))"

subsection \<open>The fixing date\<close>

text \<open>
  \<open>static_cast<Integer>(x)\<close> of a real \<open>x\<close> discards the fractional part (truncation
  toward zero). \<open>Integer\<close> has 32 bits; the cast is defined when the truncated value
  fits, and the negation applied to it in \<open>fixingDate\<close> when the value is not the least
  \<open>Integer\<close>.
\<close>

definition trunc :: "real \<Rightarrow> int" where
  "trunc x = (if 0 \<le> x then \<lfloor>x\<rfloor> else \<lceil>x\<rceil>)"

definition static_cast_Integer :: "real \<Rightarrow> error + int" where
  "static_cast_Integer x =
     (let n = trunc x
      in if - (2 ^ 31) < n \<and> n < 2 ^ 31 then Inr n else Inl Undefined)"

text \<open>\<open>fixingDate()\<close> (lines 92-100).\<close>

definition fixingDate :: "FRA \<Rightarrow> error + Date" where
  "fixingDate s =
     (case index_m s of
        Some ix \<Rightarrow> Inr (ibor_fixingDate ix (valueDate_m s))
      | None \<Rightarrow>
          (case fixingDays_m s of
             None \<Rightarrow> Inl Undefined
           | Some fd \<Rightarrow>
               (case static_cast_Integer fd of
                  Inl e \<Rightarrow> Inl e
                | Inr n \<Rightarrow>
                    Inr (advance (calendar_m s) (valueDate_m s) (- n) Days
                           (businessDayConvention_m s)))))"

subsection \<open>Expiry\<close>

text \<open>
  \<open>isExpired()\<close> (lines 102-104) asks \<open>hasOccurred\<close> of the event at the value date.
  The event's test against the evaluation date is a parameter.
\<close>

definition isExpired :: "(Date \<Rightarrow> bool) \<Rightarrow> FRA \<Rightarrow> bool" where
  "isExpired hasOccurred s = hasOccurred (valueDate_m s)"

subsection \<open>The calculations\<close>

text \<open>
  The right-hand side of the assignment in \<open>calculateForwardRate\<close> (lines 131-151):
  the three branches in the order of the source.
\<close>

definition impliedRate :: "YieldTermStructure \<Rightarrow> DayCounter \<Rightarrow> Date \<Rightarrow> Date \<Rightarrow> real" where
  "impliedRate ts dc d1 d2 = (discount ts d1 / discount ts d2 - 1) / yearFraction dc d1 d2"

definition forwardRateValue :: "FRA \<Rightarrow> error + InterestRate" where
  "forwardRateValue s =
     (if useIndexedCoupon_m s \<and> index_m s \<noteq> None then
        (case index_m s of
           None \<Rightarrow> Inl NullPointer
         | Some ix \<Rightarrow>
             (case fixingDate s of
                Inl e \<Rightarrow> Inl e
              | Inr fd \<Rightarrow>
                  (case ibor_fixing ix fd of
                     Inl e \<Rightarrow> Inl e
                   | Inr r \<Rightarrow> Inr (mkInterestRate r (ibor_dayCounter ix) Simple Once))))
      else if \<not> useIndexedCoupon_m s \<and> index_m s \<noteq> None then
        (case index_m s of
           None \<Rightarrow> Inl NullPointer
         | Some ix \<Rightarrow>
             (case deref (ibor_forwardingTermStructure ix) of
                Inl e \<Rightarrow> Inl e
              | Inr ts \<Rightarrow>
                  Inr (mkInterestRate
                         (impliedRate ts (ibor_dayCounter ix) (valueDate_m s) (maturityDate_m s))
                         (ibor_dayCounter ix) Simple Once)))
      else
        (case deref (discountCurve_m s) of
           Inl e \<Rightarrow> Inl e
         | Inr ts \<Rightarrow>
             Inr (mkInterestRate
                    (impliedRate ts (yts_dayCounter ts) (valueDate_m s) (maturityDate_m s))
                    (yts_dayCounter ts) Simple Once)))"

text \<open>
  A stateful member function returns the exception it throws, if any, and the
  object as it is then. \<open>calculateForwardRate\<close> assigns \<open>forwardRate_\<close> only when
  the right-hand side was evaluated.
\<close>

definition calculateForwardRate :: "FRA \<Rightarrow> error option \<times> FRA" where
  "calculateForwardRate s =
     (case forwardRateValue s of
        Inl e \<Rightarrow> (Some e, s)
      | Inr r \<Rightarrow> (None, s\<lparr>forwardRate_m := Some r\<rparr>))"

text \<open>\<open>calculateAmount()\<close> (lines 153-162).\<close>

definition sign_of :: "PositionType \<Rightarrow> real" where
  "sign_of t = (if t = Long then 1 else - 1)"

text \<open>The value that line 161 assigns to \<open>amount_\<close>, for the forward rate \<open>fr\<close>.\<close>

definition amountValue :: "FRA \<Rightarrow> InterestRate \<Rightarrow> real" where
  "amountValue s fr =
     (let sign = sign_of (fraType_m s);
          F = rate fr;
          K = rate (strikeForwardRate_m s);
          T = yearFraction (ir_dayCounter fr) (valueDate_m s) (maturityDate_m s)
      in notionalAmount_m s * sign * (F - K) * T / (1 + F * T))"

definition calculateAmount :: "FRA \<Rightarrow> error option \<times> FRA" where
  "calculateAmount s =
     (case calculateForwardRate s of
        (Some e, s1) \<Rightarrow> (Some e, s1)
      | (None, s1) \<Rightarrow>
          (case forwardRate_m s1 of
             None \<Rightarrow> (Some NoDayCounter, s1)
           | Some fr \<Rightarrow> (None, s1\<lparr>amount_m := Some (amountValue s1 fr)\<rparr>)))"

text \<open>
  \<open>performCalculations()\<close> (lines 122-129). The discounting handle is
  \<open>discountCurve_\<close> unless that is empty, in which case \<open>index_\<close> is dereferenced for
  its forwarding term structure; the chosen handle is then dereferenced.
\<close>

definition discountHandle :: "FRA \<Rightarrow> error + YieldTermStructure option" where
  "discountHandle s =
     (if discountCurve_m s = None
      then (case index_m s of
              None \<Rightarrow> Inl NullPointer
            | Some ix \<Rightarrow> Inr (ibor_forwardingTermStructure ix))
      else Inr (discountCurve_m s))"

definition performCalculations :: "FRA \<Rightarrow> error option \<times> FRA" where
  "performCalculations s =
     (case calculateAmount s of
        (Some e, s1) \<Rightarrow> (Some e, s1)
      | (None, s1) \<Rightarrow>
          (case discountHandle s1 of
             Inl e \<Rightarrow> (Some e, s1)
           | Inr h \<Rightarrow>
               (case deref h of
                  Inl e \<Rightarrow> (Some e, s1)
                | Inr ts \<Rightarrow>
                    (case amount_m s1 of
                       None \<Rightarrow> (Some Undefined, s1)
                     | Some a \<Rightarrow>
                         (None, s1\<lparr>NPV_m := Some (a * discount ts (valueDate_m s1))\<rparr>)))))"

text \<open>
  Modelled from the spec: \<open>Instrument::setupExpired\<close>, which is not in this file
  ("NPV and error estimate are forced to zero").
\<close>

definition Instrument_setupExpired :: "FRA \<Rightarrow> FRA" where
  "Instrument_setupExpired s = s\<lparr>NPV_m := Some 0, errorEstimate_m := Some 0\<rparr>"

text \<open>\<open>setupExpired()\<close> (lines 116-120).\<close>

definition setupExpired :: "FRA \<Rightarrow> error option \<times> FRA" where
  "setupExpired s = calculateForwardRate (Instrument_setupExpired s)"

text \<open>
  Modelled from the spec: \<open>Instrument::calculate\<close> and \<open>LazyObject::calculate\<close>, which
  are not in this file ("if not calculated, run the owner's calculation routine,
  then set calculated = true", with the expired branch when the contract has passed
  its value date; a calculation that fails leaves the cache marked dirty).
\<close>

definition calculate :: "(Date \<Rightarrow> bool) \<Rightarrow> FRA \<Rightarrow> error option \<times> FRA" where
  "calculate hasOccurred s =
     (if calculated_m s then (None, s)
      else
        (case (if isExpired hasOccurred s then setupExpired s else performCalculations s) of
           (Some e, s1) \<Rightarrow> (Some e, s1)
         | (None, s1) \<Rightarrow> (None, s1\<lparr>calculated_m := True\<rparr>)))"

text \<open>
  Modelled from the spec: the change notification (\<open>invalidate()\<close>: "clears the
  calculated flag").
\<close>

definition update :: "FRA \<Rightarrow> FRA" where
  "update s = s\<lparr>calculated_m := False\<rparr>"

text \<open>The accessors \<open>amount()\<close> and \<open>forwardRate()\<close> (lines 106-114).\<close>

definition amount :: "(Date \<Rightarrow> bool) \<Rightarrow> FRA \<Rightarrow> (error + real option) \<times> FRA" where
  "amount hasOccurred s =
     (case calculate hasOccurred s of
        (Some e, s1) \<Rightarrow> (Inl e, s1)
      | (None, s1) \<Rightarrow> (Inr (amount_m s1), s1))"

definition forwardRate :: "(Date \<Rightarrow> bool) \<Rightarrow> FRA \<Rightarrow> (error + InterestRate option) \<times> FRA" where
  "forwardRate hasOccurred s =
     (case calculate hasOccurred s of
        (Some e, s1) \<Rightarrow> (Inl e, s1)
      | (None, s1) \<Rightarrow> (Inr (forwardRate_m s1), s1))"

text \<open>
  Modelled from the spec: the accessors \<open>NPV()\<close> and \<open>errorEstimate()\<close> inherited from
  \<open>Instrument\<close>, which are not in this file ("ensures cache freshness (including the
  expired-path handling), returns NPV").
\<close>

definition NPV :: "(Date \<Rightarrow> bool) \<Rightarrow> FRA \<Rightarrow> (error + real option) \<times> FRA" where
  "NPV hasOccurred s =
     (case calculate hasOccurred s of
        (Some e, s1) \<Rightarrow> (Inl e, s1)
      | (None, s1) \<Rightarrow> (Inr (NPV_m s1), s1))"

definition errorEstimate :: "(Date \<Rightarrow> bool) \<Rightarrow> FRA \<Rightarrow> (error + real option) \<times> FRA" where
  "errorEstimate hasOccurred s =
     (case calculate hasOccurred s of
        (Some e, s1) \<Rightarrow> (Inl e, s1)
      | (None, s1) \<Rightarrow> (Inr (errorEstimate_m s1), s1))"

subsection \<open>Concrete market data\<close>

text \<open>
  Data for evaluating the definitions: the Actual/360 and Actual/365 day counters, a
  calendar without holidays, a calendar whose holidays are the weekends (the days
  \<open>6\<close> and \<open>0\<close> modulo \<open>7\<close>), a curve of simple 5\% discount factors from day \<open>0\<close>, and
  two indexes.
\<close>

definition Actual360 :: DayCounter where
  "Actual360 = \<lparr>dc_name = ''Actual/360'', yearFraction = (\<lambda>d1 d2. real_of_int (d2 - d1) / 360)\<rparr>"

definition Actual365Fixed :: DayCounter where
  "Actual365Fixed =
     \<lparr>dc_name = ''Actual/365 (Fixed)'', yearFraction = (\<lambda>d1 d2. real_of_int (d2 - d1) / 365)\<rparr>"

definition NullCalendar :: Calendar where
  "NullCalendar = \<lparr>adjust = (\<lambda>d c. d), advance = (\<lambda>d n u c. d + n)\<rparr>"

definition isWeekend :: "Date \<Rightarrow> bool" where
  "isWeekend d = (d mod 7 = 6 \<or> d mod 7 = 0)"

definition nextBusinessDay :: "Date \<Rightarrow> Date" where
  "nextBusinessDay d =
     (if isWeekend (d + 1) then (if isWeekend (d + 2) then d + 3 else d + 2) else d + 1)"

definition previousBusinessDay :: "Date \<Rightarrow> Date" where
  "previousBusinessDay d =
     (if isWeekend (d - 1) then (if isWeekend (d - 2) then d - 3 else d - 2) else d - 1)"

definition WeekendsOnly :: Calendar where
  "WeekendsOnly =
     \<lparr>adjust = (\<lambda>d c. if \<not> isWeekend d \<or> c = Unadjusted then d
                       else if c = Preceding \<or> c = ModifiedPreceding
                       then previousBusinessDay d else nextBusinessDay d),
      advance = (\<lambda>d n u c. if 0 \<le> n then (nextBusinessDay ^^ nat n) d
                            else (previousBusinessDay ^^ nat (- n)) d)\<rparr>"

definition flatCurve :: YieldTermStructure where
  "flatCurve =
     \<lparr>discount = (\<lambda>d. 36000 / (36000 + 5 * real_of_int d)),
      yts_dayCounter = Actual365Fixed,
      yts_calendar = WeekendsOnly\<rparr>"

text \<open>
  An index with a forwarding curve and no fixing stored; an index with the fixing
  \<open>5\%\<close> stored for day \<open>8\<close> and an empty forwarding handle.
\<close>

definition curveIndex :: IborIndex where
  "curveIndex =
     \<lparr>ibor_dayCounter = Actual360,
      ibor_fixingCalendar = NullCalendar,
      ibor_businessDayConvention = ModifiedFollowing,
      ibor_fixingDate = (\<lambda>d. d - 2),
      ibor_maturityDate = (\<lambda>d. d + 90),
      ibor_fixing = (\<lambda>d. Inl MissingFixing),
      ibor_forwardingTermStructure = Some flatCurve\<rparr>"

definition fixedIndex :: IborIndex where
  "fixedIndex =
     \<lparr>ibor_dayCounter = Actual360,
      ibor_fixingCalendar = NullCalendar,
      ibor_businessDayConvention = ModifiedFollowing,
      ibor_fixingDate = (\<lambda>d. d - 2),
      ibor_maturityDate = (\<lambda>d. d + 90),
      ibor_fixing = (\<lambda>d. if d = 8 then Inr (5 / 100) else Inl MissingFixing),
      ibor_forwardingTermStructure = None\<rparr>"

text \<open>
  Three instruments as the constructors build them, each long, on a notional of
  \<open>1000000\<close> with strike \<open>4\%\<close>: on \<open>fixedIndex\<close> with the indexed coupon and no discount
  curve, from day \<open>10\<close> to day \<open>100\<close>; on \<open>curveIndex\<close> with the par-coupon
  approximation and no discount curve, over the same dates; and on \<open>flatCurve\<close>
  alone with \<open>2.9\<close> fixing days, from day \<open>10\<close> to day \<open>99\<close> (day \<open>97\<close>, a weekend day,
  adjusted).
\<close>

definition fixedFRA :: FRA where
  "fixedFRA =
     \<lparr>fraType_m = Long,
      notionalAmount_m = 1000000,
      index_m = Some fixedIndex,
      useIndexedCoupon_m = True,
      dayCounter_m = Actual360,
      calendar_m = NullCalendar,
      businessDayConvention_m = ModifiedFollowing,
      valueDate_m = 10,
      maturityDate_m = 100,
      discountCurve_m = None,
      fixingDays_m = None,
      strikeForwardRate_m =
        \<lparr>rate = 4 / 100, ir_dayCounter = Actual360, ir_compounding = Simple,
         ir_frequency = Once\<rparr>,
      forwardRate_m = None,
      amount_m = None,
      NPV_m = None,
      errorEstimate_m = None,
      calculated_m = False\<rparr>"

definition parFRA :: FRA where
  "parFRA =
     \<lparr>fraType_m = Long,
      notionalAmount_m = 1000000,
      index_m = Some curveIndex,
      useIndexedCoupon_m = False,
      dayCounter_m = Actual360,
      calendar_m = NullCalendar,
      businessDayConvention_m = ModifiedFollowing,
      valueDate_m = 10,
      maturityDate_m = 100,
      discountCurve_m = None,
      fixingDays_m = None,
      strikeForwardRate_m =
        \<lparr>rate = 4 / 100, ir_dayCounter = Actual360, ir_compounding = Simple,
         ir_frequency = Once\<rparr>,
      forwardRate_m = None,
      amount_m = None,
      NPV_m = None,
      errorEstimate_m = None,
      calculated_m = False\<rparr>"

definition curveFRA :: FRA where
  "curveFRA =
     \<lparr>fraType_m = Long,
      notionalAmount_m = 1000000,
      index_m = None,
      useIndexedCoupon_m = False,
      dayCounter_m = Actual365Fixed,
      calendar_m = WeekendsOnly,
      businessDayConvention_m = Following,
      valueDate_m = 10,
      maturityDate_m = 99,
      discountCurve_m = Some flatCurve,
      fixingDays_m = Some (29 / 10),
      strikeForwardRate_m =
        \<lparr>rate = 4 / 100, ir_dayCounter = Actual365Fixed, ir_compounding = Simple,
         ir_frequency = Once\<rparr>,
      forwardRate_m = None,
      amount_m = None,
      NPV_m = None,
      errorEstimate_m = None,
      calculated_m = False\<rparr>"

section \<open>Properties\<close>

subsection \<open>The results do not feed back into the calculation\<close>

lemma forwardRateValue_results [simp]:
  "forwardRateValue (s\<lparr>forwardRate_m := a\<rparr>) = forwardRateValue s"
  "forwardRateValue (s\<lparr>amount_m := b\<rparr>) = forwardRateValue s"
  "forwardRateValue (s\<lparr>NPV_m := c\<rparr>) = forwardRateValue s"
  "forwardRateValue (s\<lparr>errorEstimate_m := d\<rparr>) = forwardRateValue s"
  "forwardRateValue (s\<lparr>calculated_m := e\<rparr>) = forwardRateValue s"
  "forwardRateValue (s\<lparr>fraType_m := t\<rparr>) = forwardRateValue s"
  by (simp_all add: forwardRateValue_def fixingDate_def split: option.split sum.split)

lemma amountValue_results [simp]:
  "amountValue (s\<lparr>forwardRate_m := a\<rparr>) fr = amountValue s fr"
  "amountValue (s\<lparr>NPV_m := c\<rparr>) fr = amountValue s fr"
  "amountValue (s\<lparr>errorEstimate_m := d\<rparr>) fr = amountValue s fr"
  by (simp_all add: amountValue_def)

lemma discountHandle_results [simp]:
  "discountHandle (s\<lparr>forwardRate_m := a\<rparr>) = discountHandle s"
  "discountHandle (s\<lparr>amount_m := b\<rparr>) = discountHandle s"
  "discountHandle (s\<lparr>NPV_m := c\<rparr>) = discountHandle s"
  "discountHandle (s\<lparr>errorEstimate_m := d\<rparr>) = discountHandle s"
  by (simp_all add: discountHandle_def)

lemma trunc_of_int [simp]: "trunc (real_of_int i) = i"
  by (simp add: trunc_def)

lemma trunc_toward_zero:
  "\<bar>real_of_int (trunc x)\<bar> \<le> \<bar>x\<bar> \<and> \<bar>x - real_of_int (trunc x)\<bar> < 1"
  unfolding trunc_def by (cases "0 \<le> x") (simp; linarith)+

lemma trunc_unique:
  assumes "\<bar>real_of_int i\<bar> \<le> \<bar>x\<bar>" and "\<bar>x - real_of_int i\<bar> < 1"
  shows "i = trunc x"
proof (cases "0 \<le> x")
  case True
  with assms have "real_of_int i \<le> x" "x < real_of_int i + 1" by linarith+
  then have "\<lfloor>x\<rfloor> = i" by (simp add: floor_unique)
  with True show ?thesis by (simp add: trunc_def)
next
  case False
  with assms have "real_of_int i - 1 < x" "x \<le> real_of_int i" by linarith+
  then have "\<lceil>x\<rceil> = i" by (simp add: ceiling_unique)
  with False show ?thesis by (simp add: trunc_def)
qed

lemma fixingDate_results [simp]:
  "fixingDate (s\<lparr>forwardRate_m := a\<rparr>) = fixingDate s"
  "fixingDate (s\<lparr>amount_m := b\<rparr>) = fixingDate s"
  "fixingDate (s\<lparr>NPV_m := c\<rparr>) = fixingDate s"
  "fixingDate (s\<lparr>errorEstimate_m := d\<rparr>) = fixingDate s"
  "fixingDate (s\<lparr>calculated_m := e\<rparr>) = fixingDate s"
  by (simp_all add: fixingDate_def split: option.split sum.split)

subsection \<open>The calculations in closed form\<close>

lemma calculateAmount_eq:
  "calculateAmount s =
     (case forwardRateValue s of
        Inl e \<Rightarrow> (Some e, s)
      | Inr fr \<Rightarrow> (None, s\<lparr>forwardRate_m := Some fr, amount_m := Some (amountValue s fr)\<rparr>))"
  by (simp add: calculateAmount_def calculateForwardRate_def split: sum.split)

lemma performCalculations_eq:
  "performCalculations s =
     (case forwardRateValue s of
        Inl e \<Rightarrow> (Some e, s)
      | Inr fr \<Rightarrow>
          (case discountHandle s of
             Inl e \<Rightarrow>
               (Some e, s\<lparr>forwardRate_m := Some fr, amount_m := Some (amountValue s fr)\<rparr>)
           | Inr None \<Rightarrow>
               (Some EmptyHandle,
                s\<lparr>forwardRate_m := Some fr, amount_m := Some (amountValue s fr)\<rparr>)
           | Inr (Some ts) \<Rightarrow>
               (None,
                s\<lparr>forwardRate_m := Some fr, amount_m := Some (amountValue s fr),
                  NPV_m := Some (amountValue s fr * discount ts (valueDate_m s))\<rparr>)))"
  by (simp add: performCalculations_def calculateAmount_eq deref_def
      split: sum.split option.split)

lemma setupExpired_eq:
  "setupExpired s =
     (case forwardRateValue s of
        Inl e \<Rightarrow> (Some e, s\<lparr>NPV_m := Some 0, errorEstimate_m := Some 0\<rparr>)
      | Inr fr \<Rightarrow>
          (None, s\<lparr>NPV_m := Some 0, errorEstimate_m := Some 0, forwardRate_m := Some fr\<rparr>))"
  by (simp add: setupExpired_def Instrument_setupExpired_def calculateForwardRate_def
      split: sum.split)

lemma fixingDate_calculate: "fixingDate (snd (calculate hasOccurred s)) = fixingDate s"
  by (simp add: calculate_def performCalculations_eq setupExpired_eq
      split: sum.split option.split)

subsection \<open>The constructors on the concrete data\<close>

lemma fixedFRA_constructed:
  "ForwardRateAgreement_index 10 100 Long (4 / 100) 1000000 (Some fixedIndex) None True
     = Inr fixedFRA"
  by (simp add: ForwardRateAgreement_index_def fixedFRA_def fixedIndex_def NullCalendar_def
      mkInterestRate_def Let_def)

lemma parFRA_constructed:
  "ForwardRateAgreement_index_tenor 10 Long (4 / 100) 1000000 (Some curveIndex) None False
     = Inr parFRA"
  by (simp add: ForwardRateAgreement_index_tenor_def ForwardRateAgreement_index_def parFRA_def
      curveIndex_def NullCalendar_def mkInterestRate_def Let_def)

lemma curveFRA_constructed:
  "ForwardRateAgreement_curve 10 97 Long (4 / 100) 1000000 (Some flatCurve) (29 / 10) Following
     = Inr curveFRA"
  by (simp add: ForwardRateAgreement_curve_def curveFRA_def flatCurve_def WeekendsOnly_def
      deref_def nextBusinessDay_def isWeekend_def mkInterestRate_def Let_def)

lemma fixedFRA_value:
  "forwardRateValue fixedFRA =
     Inr \<lparr>rate = 5 / 100, ir_dayCounter = Actual360, ir_compounding = Simple,
          ir_frequency = Once\<rparr>"
  by (simp add: forwardRateValue_def fixingDate_def fixedFRA_def fixedIndex_def
      mkInterestRate_def)

lemma fixedFRA_amount:
  "amountValue fixedFRA
     \<lparr>rate = 5 / 100, ir_dayCounter = Actual360, ir_compounding = Simple, ir_frequency = Once\<rparr>
   = 200000 / 81"
  by (simp add: amountValue_def fixedFRA_def Actual360_def Let_def sign_of_def)

lemma fixedFRA_handle: "discountHandle fixedFRA = Inr None"
  by (simp add: discountHandle_def fixedFRA_def fixedIndex_def)

lemma fixedFRA_performCalculations:
  "performCalculations fixedFRA =
     (Some EmptyHandle,
      fixedFRA\<lparr>forwardRate_m :=
                  Some \<lparr>rate = 5 / 100, ir_dayCounter = Actual360, ir_compounding = Simple,
                        ir_frequency = Once\<rparr>,
                amount_m := Some (200000 / 81)\<rparr>)"
  by (simp only: performCalculations_eq fixedFRA_value fixedFRA_handle fixedFRA_amount
      sum.case option.case)

lemma parFRA_value:
  "forwardRateValue parFRA =
     Inr \<lparr>rate = 36 / 721, ir_dayCounter = Actual360, ir_compounding = Simple,
          ir_frequency = Once\<rparr>"
  by (simp add: forwardRateValue_def parFRA_def curveIndex_def flatCurve_def Actual360_def
      mkInterestRate_def impliedRate_def deref_def)

lemma parFRA_amount:
  "amountValue parFRA
     \<lparr>rate = 36 / 721, ir_dayCounter = Actual360, ir_compounding = Simple, ir_frequency = Once\<rparr>
   = 179000 / 73"
  by (simp add: amountValue_def parFRA_def Actual360_def Let_def sign_of_def)

lemma parFRA_handle: "discountHandle parFRA = Inr (Some flatCurve)"
  by (simp add: discountHandle_def parFRA_def curveIndex_def)

lemma parFRA_discounted:
  "179000 / 73 * discount flatCurve (valueDate_m parFRA) = 128880000 / 52633"
  by (simp add: parFRA_def flatCurve_def)

subsection \<open>The forward rate\<close>

text \<open>
  Claim C1. \<open>calculateForwardRate\<close> takes one of three branches, which exclude each
  other and cover every instrument. With the indexed coupon and an index, the forward
  rate is the index's fixing at the index's fixing date of the value date, with the
  index's day counter, simple compounding and a single period; the calculation fails
  when the fixing does. Without the indexed coupon and with an index, the rate is
  \<open>(P(valueDate) / P(maturityDate) - 1) / \<tau>\<close> for the discount function \<open>P\<close> of the
  index's forwarding curve and the year fraction \<open>\<tau>\<close> of the index's day counter; the
  calculation fails when that handle is empty. Without an index, the same formula is
  applied to the discount curve and its day counter.
\<close>

theorem calculateForwardRate_branches:
  "(useIndexedCoupon_m s \<and> index_m s = Some ix \<longrightarrow>
      fixingDate s = Inr (ibor_fixingDate ix (valueDate_m s))
      \<and> calculateForwardRate s =
        (case ibor_fixing ix (ibor_fixingDate ix (valueDate_m s)) of
           Inl e \<Rightarrow> (Some e, s)
         | Inr r \<Rightarrow>
             (None, s\<lparr>forwardRate_m :=
                Some \<lparr>rate = r, ir_dayCounter = ibor_dayCounter ix,
                      ir_compounding = Simple, ir_frequency = Once\<rparr>\<rparr>)))
   \<and> (\<not> useIndexedCoupon_m s \<and> index_m s = Some ix \<longrightarrow>
      calculateForwardRate s =
        (case ibor_forwardingTermStructure ix of
           None \<Rightarrow> (Some EmptyHandle, s)
         | Some ts \<Rightarrow>
             (None, s\<lparr>forwardRate_m :=
                Some \<lparr>rate = (discount ts (valueDate_m s) / discount ts (maturityDate_m s) - 1)
                              / yearFraction (ibor_dayCounter ix) (valueDate_m s)
                                  (maturityDate_m s),
                      ir_dayCounter = ibor_dayCounter ix,
                      ir_compounding = Simple, ir_frequency = Once\<rparr>\<rparr>)))
   \<and> (index_m s = None \<longrightarrow>
      calculateForwardRate s =
        (case discountCurve_m s of
           None \<Rightarrow> (Some EmptyHandle, s)
         | Some ts \<Rightarrow>
             (None, s\<lparr>forwardRate_m :=
                Some \<lparr>rate = (discount ts (valueDate_m s) / discount ts (maturityDate_m s) - 1)
                              / yearFraction (yts_dayCounter ts) (valueDate_m s)
                                  (maturityDate_m s),
                      ir_dayCounter = yts_dayCounter ts,
                      ir_compounding = Simple, ir_frequency = Once\<rparr>\<rparr>)))"
  by (simp add: calculateForwardRate_def forwardRateValue_def fixingDate_def deref_def
      mkInterestRate_def impliedRate_def split: sum.split option.split)

theorem calculateForwardRate_branches_witness:
  "calculateForwardRate fixedFRA =
     (None, fixedFRA\<lparr>forwardRate_m :=
        Some \<lparr>rate = 5 / 100, ir_dayCounter = Actual360,
              ir_compounding = Simple, ir_frequency = Once\<rparr>\<rparr>)
   \<and> calculateForwardRate parFRA =
     (None, parFRA\<lparr>forwardRate_m :=
        Some \<lparr>rate = 36 / 721, ir_dayCounter = Actual360,
              ir_compounding = Simple, ir_frequency = Once\<rparr>\<rparr>)
   \<and> calculateForwardRate curveFRA =
     (None, curveFRA\<lparr>forwardRate_m :=
        Some \<lparr>rate = 365 / 7210, ir_dayCounter = Actual365Fixed,
              ir_compounding = Simple, ir_frequency = Once\<rparr>\<rparr>)"
proof -
  have "calculateForwardRate fixedFRA =
     (None, fixedFRA\<lparr>forwardRate_m :=
        Some \<lparr>rate = 5 / 100, ir_dayCounter = Actual360,
              ir_compounding = Simple, ir_frequency = Once\<rparr>\<rparr>)"
    using calculateForwardRate_branches [of fixedFRA fixedIndex]
    by (simp add: fixedFRA_def fixedIndex_def)
  moreover have "calculateForwardRate parFRA =
     (None, parFRA\<lparr>forwardRate_m :=
        Some \<lparr>rate = 36 / 721, ir_dayCounter = Actual360,
              ir_compounding = Simple, ir_frequency = Once\<rparr>\<rparr>)"
    using calculateForwardRate_branches [of parFRA curveIndex]
    by (simp add: parFRA_def curveIndex_def flatCurve_def Actual360_def)
  moreover have "calculateForwardRate curveFRA =
     (None, curveFRA\<lparr>forwardRate_m :=
        Some \<lparr>rate = 365 / 7210, ir_dayCounter = Actual365Fixed,
              ir_compounding = Simple, ir_frequency = Once\<rparr>\<rparr>)"
    using calculateForwardRate_branches [of curveFRA]
    by (simp add: curveFRA_def flatCurve_def Actual365Fixed_def)
  ultimately show ?thesis by simp
qed

subsection \<open>The settlement amount\<close>

text \<open>
  Claim C2. When the forward rate \<open>F\<close> is computed, \<open>calculateAmount\<close> stores it and
  sets the amount to \<open>notionalAmount * sign * (F - K) * T / (1 + F * T)\<close>, where \<open>sign\<close>
  is \<open>1\<close> for a long and \<open>-1\<close> for a short position, \<open>K\<close> is the strike rate and \<open>T\<close> the
  year fraction from the value date to the maturity date under the day counter of the
  forward rate. The amount of the short position is the negation of the amount of the
  long position on the same terms.
\<close>

theorem calculateAmount_formula:
  assumes "forwardRateValue s = Inr fr"
  shows "calculateAmount s =
           (None,
            s\<lparr>forwardRate_m := Some fr,
              amount_m :=
                Some (notionalAmount_m s * (if fraType_m s = Long then 1 else - 1)
                      * (rate fr - rate (strikeForwardRate_m s))
                      * yearFraction (ir_dayCounter fr) (valueDate_m s) (maturityDate_m s)
                      / (1 + rate fr
                             * yearFraction (ir_dayCounter fr) (valueDate_m s)
                                 (maturityDate_m s)))\<rparr>)
         \<and> amount_m (snd (calculateAmount (s\<lparr>fraType_m := Short\<rparr>)))
           = map_option uminus (amount_m (snd (calculateAmount (s\<lparr>fraType_m := Long\<rparr>))))"
  using assms by (simp add: calculateAmount_eq amountValue_def sign_of_def Let_def)

theorem calculateAmount_formula_witness:
  "forwardRateValue fixedFRA =
     Inr \<lparr>rate = 5 / 100, ir_dayCounter = Actual360, ir_compounding = Simple,
          ir_frequency = Once\<rparr>
   \<and> amount_m (snd (calculateAmount fixedFRA)) = Some (200000 / 81)
   \<and> amount_m (snd (calculateAmount (fixedFRA\<lparr>fraType_m := Short\<rparr>))) = Some (- (200000 / 81))"
proof -
  have fr: "forwardRateValue fixedFRA =
     Inr \<lparr>rate = 5 / 100, ir_dayCounter = Actual360, ir_compounding = Simple,
          ir_frequency = Once\<rparr>"
    by (simp add: forwardRateValue_def fixingDate_def fixedFRA_def fixedIndex_def
        mkInterestRate_def)
  have long: "fixedFRA\<lparr>fraType_m := Long\<rparr> = fixedFRA"
    by (simp add: fixedFRA_def)
  show ?thesis
    using calculateAmount_formula [OF fr] fr long
    by (simp add: fixedFRA_def Actual360_def)
qed

subsection \<open>The present value\<close>

text \<open>
  Claim C3. When the forward rate is computed and the discounting curve resolves,
  \<open>performCalculations\<close> sets the NPV to the settlement amount times the discount
  factor of the value date. The discounting curve is \<open>discountCurve_\<close> when that handle
  is not empty, and the forwarding curve of the index otherwise. For an instrument
  that is not expired and not yet calculated, \<open>NPV()\<close> runs this calculation and
  returns that value.
\<close>

theorem performCalculations_NPV:
  assumes "forwardRateValue s = Inr fr"
    and "discountCurve_m s = Some ts \<or>
         discountCurve_m s = None \<and> index_m s = Some ix
           \<and> ibor_forwardingTermStructure ix = Some ts"
  shows "amount_m (snd (calculateAmount s)) = Some (amountValue s fr)
         \<and> performCalculations s
             = (None, (snd (calculateAmount s))
                        \<lparr>NPV_m := Some (amountValue s fr * discount ts (valueDate_m s))\<rparr>)
         \<and> (\<not> calculated_m s \<and> \<not> isExpired hasOccurred s \<longrightarrow>
              NPV hasOccurred s
                = (Inr (Some (amountValue s fr * discount ts (valueDate_m s))),
                   (snd (calculateAmount s))
                     \<lparr>NPV_m := Some (amountValue s fr * discount ts (valueDate_m s)),
                       calculated_m := True\<rparr>))"
  using assms
  by (auto simp add: NPV_def calculate_def performCalculations_eq calculateAmount_eq
      discountHandle_def)

theorem performCalculations_NPV_witness:
  "forwardRateValue parFRA =
     Inr \<lparr>rate = 36 / 721, ir_dayCounter = Actual360, ir_compounding = Simple,
          ir_frequency = Once\<rparr>
   \<and> discountCurve_m parFRA = None \<and> index_m parFRA = Some curveIndex
   \<and> ibor_forwardingTermStructure curveIndex = Some flatCurve
   \<and> \<not> calculated_m parFRA \<and> \<not> isExpired (\<lambda>d. d \<le> 9) parFRA
   \<and> amount_m (snd (calculateAmount parFRA)) = Some (179000 / 73)
   \<and> fst (NPV (\<lambda>d. d \<le> 9) parFRA) = Inr (Some (128880000 / 52633))"
proof -
  have h: "discountCurve_m parFRA = None \<and> index_m parFRA = Some curveIndex
          \<and> ibor_forwardingTermStructure curveIndex = Some flatCurve"
    by (simp add: parFRA_def curveIndex_def)
  have e: "\<not> calculated_m parFRA \<and> \<not> isExpired (\<lambda>d. d \<le> 9) parFRA"
    by (simp add: parFRA_def isExpired_def)
  have d: "valueDate_m parFRA = 10 \<and> discount flatCurve 10 = 720 / 721"
    by (simp add: parFRA_def flatCurve_def)
  show ?thesis
    using performCalculations_NPV [OF parFRA_value, of flatCurve curveIndex "\<lambda>d. d \<le> 9"]
      parFRA_value h e d
    by (simp add: parFRA_amount)
qed

subsection \<open>The expired instrument\<close>

text \<open>
  Claim C4. For an instrument whose value date has occurred (\<open>isExpired\<close> holds), a
  query that runs the calculation sets the NPV and the error estimate to zero,
  whatever the curves are, and still evaluates \<open>calculateForwardRate\<close>: when that
  yields the rate \<open>fr\<close>, \<open>forwardRate()\<close> returns \<open>fr\<close> and \<open>NPV()\<close> and
  \<open>errorEstimate()\<close> return zero; when it fails, the query fails with the same error,
  the two members being zero already.
\<close>

theorem expired_query:
  assumes "isExpired hasOccurred s" and "\<not> calculated_m s"
  shows "NPV_m (snd (calculate hasOccurred s)) = Some 0
         \<and> errorEstimate_m (snd (calculate hasOccurred s)) = Some 0
         \<and> (forwardRateValue s = Inr fr \<longrightarrow>
              calculateForwardRate s = (None, s\<lparr>forwardRate_m := Some fr\<rparr>)
              \<and> forwardRate hasOccurred s
                  = (Inr (Some fr),
                     s\<lparr>NPV_m := Some 0, errorEstimate_m := Some 0, forwardRate_m := Some fr,
                       calculated_m := True\<rparr>)
              \<and> fst (NPV hasOccurred s) = Inr (Some 0)
              \<and> fst (errorEstimate hasOccurred s) = Inr (Some 0))
         \<and> (forwardRateValue s = Inl e \<longrightarrow>
              calculateForwardRate s = (Some e, s)
              \<and> forwardRate hasOccurred s
                  = (Inl e, s\<lparr>NPV_m := Some 0, errorEstimate_m := Some 0\<rparr>))"
  using assms
  by (simp add: calculate_def setupExpired_eq forwardRate_def NPV_def errorEstimate_def
      calculateForwardRate_def split: sum.split)

theorem expired_query_witness:
  "isExpired (\<lambda>d. d \<le> 50) parFRA \<and> \<not> calculated_m parFRA
   \<and> fst (NPV (\<lambda>d. d \<le> 50) parFRA) = Inr (Some 0)
   \<and> fst (forwardRate (\<lambda>d. d \<le> 50) parFRA)
       = Inr (Some \<lparr>rate = 36 / 721, ir_dayCounter = Actual360, ir_compounding = Simple,
                    ir_frequency = Once\<rparr>)"
proof -
  have e: "isExpired (\<lambda>d. d \<le> 50) parFRA \<and> \<not> calculated_m parFRA"
    by (simp add: parFRA_def isExpired_def)
  show ?thesis
    using expired_query [of "\<lambda>d. d \<le> 50" parFRA] e parFRA_value
    by simp
qed

subsection \<open>The discounting source at construction\<close>

text \<open>
  Claim C5, as stated, fails: the constructor from an index accepts an index whose
  forwarding handle is empty together with an empty discount curve. The instrument
  is constructed, no discounting curve resolves, and \<open>performCalculations\<close> fails
  only when it dereferences the empty handle.
\<close>

theorem constructed_without_discounting_source:
  "ForwardRateAgreement_index 10 100 Long (4 / 100) 1000000 (Some fixedIndex) None True
     = Inr fixedFRA
   \<and> discountCurve_m fixedFRA = None
   \<and> index_m fixedFRA = Some fixedIndex
   \<and> ibor_forwardingTermStructure fixedIndex = None
   \<and> discountHandle fixedFRA = Inr None
   \<and> fst (performCalculations fixedFRA) = Some EmptyHandle"
proof -
  have "discountCurve_m fixedFRA = None \<and> index_m fixedFRA = Some fixedIndex
        \<and> ibor_forwardingTermStructure fixedIndex = None"
    by (simp add: fixedFRA_def fixedIndex_def)
  then show ?thesis
    using fixedFRA_constructed fixedFRA_handle fixedFRA_performCalculations by simp
qed

text \<open>
  Claim C5, amended. The constructor from a discount curve fails at once with the
  empty-handle error when the curve handle is empty. The constructors from an index
  dereference the index unchecked (a null index is the failure \<open>NullPointer\<close> of the
  model) and make no check of the discounting source: given an index they fail
  exactly when the notional is not positive or the value date is not before the
  adjusted maturity date, whatever the discount curve and the index's forwarding
  handle hold. A constructed instrument has an index or a discount curve that was
  not empty. When the discount curve is empty and the forwarding handle of the index
  is empty, the failure comes at calculation time: \<open>performCalculations\<close> fails, in
  the forward rate or else with the empty-handle error at the discounting step.
\<close>

theorem discounting_source_checks:
  "ForwardRateAgreement_curve v m t k n None fd bdc = Inl EmptyHandle
   \<and> ForwardRateAgreement_index v m t k n None dc u = Inl NullPointer
   \<and> ForwardRateAgreement_index_tenor v t k n None dc u = Inl NullPointer
   \<and> isl (ForwardRateAgreement_index v m t k n (Some ix) dc u)
       = (\<not> (0 < n \<and> v < adjust (ibor_fixingCalendar ix) m (ibor_businessDayConvention ix)))
   \<and> isl (ForwardRateAgreement_index_tenor v t k n (Some ix) dc u)
       = (\<not> (0 < n \<and> v < adjust (ibor_fixingCalendar ix) (ibor_maturityDate ix v)
                              (ibor_businessDayConvention ix)))
   \<and> (ForwardRateAgreement_index v m t k n index dc u = Inr s
        \<or> ForwardRateAgreement_index_tenor v t k n index dc u = Inr s
        \<or> ForwardRateAgreement_curve v m t k n dc fd bdc = Inr s
      \<longrightarrow> index_m s \<noteq> None \<or> discountCurve_m s \<noteq> None)
   \<and> (discountCurve_m s = None \<and> index_m s = Some ix
        \<and> ibor_forwardingTermStructure ix = None
      \<longrightarrow> fst (performCalculations s)
            = (case forwardRateValue s of Inl e \<Rightarrow> Some e | Inr fr \<Rightarrow> Some EmptyHandle))"
  by (auto simp add: ForwardRateAgreement_curve_def ForwardRateAgreement_index_def
      ForwardRateAgreement_index_tenor_def deref_def Let_def performCalculations_eq
      discountHandle_def split: option.splits sum.splits if_splits)

theorem discounting_source_checks_witness:
  "ForwardRateAgreement_curve 10 97 Long (4 / 100) 1000000 None (29 / 10) Following
     = Inl EmptyHandle
   \<and> ForwardRateAgreement_curve 10 97 Long (4 / 100) 1000000 (Some flatCurve) (29 / 10)
       Following = Inr curveFRA
   \<and> discountCurve_m curveFRA = Some flatCurve
   \<and> \<not> isl (ForwardRateAgreement_index 10 100 Long (4 / 100) 1000000 (Some fixedIndex) None
             True)"
  using discounting_source_checks
    [where v = 10 and m = 97 and t = Long and k = "4 / 100" and n = 1000000
       and fd = "29 / 10" and bdc = Following and ix = fixedIndex and dc = "Some flatCurve"
       and u = True and index = None and s = curveFRA]
    discounting_source_checks
    [where v = 10 and m = 100 and t = Long and k = "4 / 100" and n = 1000000
       and fd = "29 / 10" and bdc = Following and ix = fixedIndex and dc = None
       and u = True and index = None and s = fixedFRA]
    curveFRA_constructed
  by (simp add: fixedIndex_def NullCalendar_def curveFRA_def)

subsection \<open>A calculation that fails\<close>

text \<open>
  Claim C6, as stated, fails: \<open>performCalculations\<close> assigns \<open>forwardRate_\<close> and
  \<open>amount_\<close> before it resolves the discounting curve. On an instrument that is not
  expired, whose index has the fixing and an empty forwarding handle and whose
  discount curve is empty, the calculation fails with the empty-handle error after
  both members were assigned. The instrument stays not calculated, and once the
  evaluation date has moved to the value date (with its notification) \<open>amount()\<close>
  returns the amount left by the failed calculation.
\<close>

theorem failed_calculation_overwrites_results:
  "\<not> calculated_m fixedFRA
   \<and> \<not> isExpired (\<lambda>d. d \<le> 9) fixedFRA
   \<and> forwardRate_m fixedFRA = None
   \<and> amount_m fixedFRA = None
   \<and> fst (calculate (\<lambda>d. d \<le> 9) fixedFRA) = Some EmptyHandle
   \<and> forwardRate_m (snd (calculate (\<lambda>d. d \<le> 9) fixedFRA))
       = Some \<lparr>rate = 5 / 100, ir_dayCounter = Actual360, ir_compounding = Simple,
               ir_frequency = Once\<rparr>
   \<and> amount_m (snd (calculate (\<lambda>d. d \<le> 9) fixedFRA)) = Some (200000 / 81)
   \<and> fst (amount (\<lambda>d. d \<le> 10) (update (snd (calculate (\<lambda>d. d \<le> 9) fixedFRA))))
       = Inr (Some (200000 / 81))"
proof -
  have c: "calculate (\<lambda>d. d \<le> 9) fixedFRA =
      (Some EmptyHandle,
       fixedFRA\<lparr>forwardRate_m :=
                   Some \<lparr>rate = 5 / 100, ir_dayCounter = Actual360, ir_compounding = Simple,
                         ir_frequency = Once\<rparr>,
                 amount_m := Some (200000 / 81)\<rparr>)"
    using fixedFRA_performCalculations
    by (simp add: calculate_def isExpired_def fixedFRA_def)
  have i: "\<not> calculated_m fixedFRA \<and> valueDate_m fixedFRA = 10
           \<and> forwardRate_m fixedFRA = None \<and> amount_m fixedFRA = None"
    by (simp add: fixedFRA_def)
  have q: "fst (amount (\<lambda>d. d \<le> 10)
             (update (fixedFRA\<lparr>forwardRate_m :=
                   Some \<lparr>rate = 5 / 100, ir_dayCounter = Actual360, ir_compounding = Simple,
                         ir_frequency = Once\<rparr>,
                 amount_m := Some (200000 / 81)\<rparr>))) = Inr (Some (200000 / 81))"
    using i
    by (simp add: amount_def calculate_def update_def isExpired_def setupExpired_eq
        fixedFRA_value)
  have e: "\<not> isExpired (\<lambda>d. d \<le> 9) fixedFRA"
    using i by (simp add: isExpired_def)
  show ?thesis
    unfolding c using i q e by simp
qed

text \<open>
  Claim C6, amended. For a query that runs the calculation: a calculation that fails
  leaves the instrument not calculated. On an instrument that is not expired, a
  failure in the forward rate leaves every member as it was; a failure at the
  discounting step leaves the NPV as it was, with \<open>forwardRate_\<close> and \<open>amount_\<close>
  already assigned; and a calculation that succeeds assigns the forward rate, the
  amount computed from it and the NPV computed from that amount, and marks the
  instrument calculated.
\<close>

theorem calculation_outcome:
  assumes "\<not> calculated_m s"
  shows "(fst (calculate hasOccurred s) \<noteq> None \<longrightarrow>
            \<not> calculated_m (snd (calculate hasOccurred s)))
         \<and> (\<not> isExpired hasOccurred s \<longrightarrow>
              calculate hasOccurred s =
                (case forwardRateValue s of
                   Inl e \<Rightarrow> (Some e, s)
                 | Inr fr \<Rightarrow>
                     (case discountHandle s of
                        Inl e \<Rightarrow>
                          (Some e,
                           s\<lparr>forwardRate_m := Some fr, amount_m := Some (amountValue s fr)\<rparr>)
                      | Inr None \<Rightarrow>
                          (Some EmptyHandle,
                           s\<lparr>forwardRate_m := Some fr, amount_m := Some (amountValue s fr)\<rparr>)
                      | Inr (Some ts) \<Rightarrow>
                          (None,
                           s\<lparr>forwardRate_m := Some fr,
                             amount_m := Some (amountValue s fr),
                             NPV_m := Some (amountValue s fr * discount ts (valueDate_m s)),
                             calculated_m := True\<rparr>))))"
  using assms
  by (simp add: calculate_def performCalculations_eq setupExpired_eq
      split: sum.split option.split)

theorem calculation_outcome_witness:
  "\<not> calculated_m parFRA \<and> \<not> isExpired (\<lambda>d. d \<le> 9) parFRA
   \<and> calculate (\<lambda>d. d \<le> 9) parFRA =
       (None,
        parFRA\<lparr>forwardRate_m :=
                 Some \<lparr>rate = 36 / 721, ir_dayCounter = Actual360, ir_compounding = Simple,
                       ir_frequency = Once\<rparr>,
               amount_m := Some (179000 / 73),
               NPV_m := Some (128880000 / 52633),
               calculated_m := True\<rparr>)
   \<and> calculate (\<lambda>d. d \<le> 9) (curveFRA\<lparr>discountCurve_m := None\<rparr>)
       = (Some EmptyHandle, curveFRA\<lparr>discountCurve_m := None\<rparr>)"
proof -
  have e: "\<not> calculated_m parFRA \<and> \<not> isExpired (\<lambda>d. d \<le> 9) parFRA"
    by (simp add: parFRA_def isExpired_def)
  have w: "forwardRateValue (curveFRA\<lparr>discountCurve_m := None\<rparr>) = Inl EmptyHandle"
    by (simp add: forwardRateValue_def curveFRA_def deref_def)
  have f: "\<not> calculated_m (curveFRA\<lparr>discountCurve_m := None\<rparr>)
           \<and> \<not> isExpired (\<lambda>d. d \<le> 9) (curveFRA\<lparr>discountCurve_m := None\<rparr>)"
    by (simp add: curveFRA_def isExpired_def)
  have "calculate (\<lambda>d. d \<le> 9) parFRA =
       (None,
        parFRA\<lparr>forwardRate_m :=
                 Some \<lparr>rate = 36 / 721, ir_dayCounter = Actual360, ir_compounding = Simple,
                       ir_frequency = Once\<rparr>,
               amount_m := Some (179000 / 73),
               NPV_m := Some (128880000 / 52633),
               calculated_m := True\<rparr>)"
    using calculation_outcome [of parFRA "\<lambda>d. d \<le> 9"] e
    by (simp only: parFRA_value parFRA_handle parFRA_amount parFRA_discounted
        sum.case option.case simp_thms)
  moreover have "calculate (\<lambda>d. d \<le> 9) (curveFRA\<lparr>discountCurve_m := None\<rparr>)
       = (Some EmptyHandle, curveFRA\<lparr>discountCurve_m := None\<rparr>)"
    using calculation_outcome [of "curveFRA\<lparr>discountCurve_m := None\<rparr>" "\<lambda>d. d \<le> 9"] f
    by (simp only: w sum.case simp_thms)
  ultimately show ?thesis using e by simp
qed

subsection \<open>The dates at construction\<close>

text \<open>
  Claim C7. Every constructor adjusts the maturity date with the calendar and the
  business day convention it derives (the fixing calendar and the convention of the
  index, or the calendar of the discount curve and the convention passed in), and
  compares the dates after that: a constructed instrument holds the adjusted maturity
  date, and its value date is strictly before it. When the value date is not before
  the adjusted maturity date the construction fails; with a positive notional the
  error is the one of the date check.
\<close>

theorem maturity_adjusted_then_checked:
  "(ForwardRateAgreement_index v m t k n index dc u = Inr s \<longrightarrow>
      (\<exists>ix. index = Some ix
         \<and> calendar_m s = ibor_fixingCalendar ix
         \<and> businessDayConvention_m s = ibor_businessDayConvention ix)
      \<and> maturityDate_m s = adjust (calendar_m s) m (businessDayConvention_m s)
      \<and> valueDate_m s = v \<and> valueDate_m s < maturityDate_m s)
   \<and> (\<not> v < adjust (ibor_fixingCalendar ix) m (ibor_businessDayConvention ix) \<longrightarrow>
        ForwardRateAgreement_index v m t k n (Some ix) dc u
          = Inl (RequireFailed (if 0 < n then ''valueDate must be earlier than maturityDate''
                                else ''notionalAmount must be positive'')))
   \<and> (ForwardRateAgreement_index_tenor v t k n index dc u = Inr s \<longrightarrow>
      (\<exists>ix. index = Some ix
         \<and> calendar_m s = ibor_fixingCalendar ix
         \<and> businessDayConvention_m s = ibor_businessDayConvention ix
         \<and> maturityDate_m s
             = adjust (calendar_m s) (ibor_maturityDate ix v) (businessDayConvention_m s))
      \<and> valueDate_m s = v \<and> valueDate_m s < maturityDate_m s)
   \<and> (\<not> v < adjust (ibor_fixingCalendar ix) (ibor_maturityDate ix v)
               (ibor_businessDayConvention ix) \<longrightarrow>
        ForwardRateAgreement_index_tenor v t k n (Some ix) dc u
          = Inl (RequireFailed (if 0 < n then ''valueDate must be earlier than maturityDate''
                                else ''notionalAmount must be positive'')))
   \<and> (ForwardRateAgreement_curve v m t k n dc fd bdc = Inr s \<longrightarrow>
      (\<exists>ts. dc = Some ts \<and> calendar_m s = yts_calendar ts)
      \<and> businessDayConvention_m s = bdc
      \<and> maturityDate_m s = adjust (calendar_m s) m (businessDayConvention_m s)
      \<and> valueDate_m s = v \<and> valueDate_m s < maturityDate_m s)
   \<and> (\<not> v < adjust (yts_calendar ts) m bdc \<longrightarrow>
        ForwardRateAgreement_curve v m t k n (Some ts) fd bdc
          = Inl (RequireFailed (if 0 < n then ''valueDate must be earlier than maturityDate''
                                else ''notionalAmount must be positive'')))"
  by (auto simp add: ForwardRateAgreement_curve_def ForwardRateAgreement_index_def
      ForwardRateAgreement_index_tenor_def deref_def Let_def
      split: option.splits sum.splits if_splits)

theorem maturity_adjusted_then_checked_witness:
  "(96::int) < 97
   \<and> adjust (yts_calendar flatCurve) 97 Preceding = 96
   \<and> ForwardRateAgreement_curve 96 97 Long (4 / 100) 1000000 (Some flatCurve) 2 Preceding
       = Inl (RequireFailed ''valueDate must be earlier than maturityDate'')
   \<and> maturityDate_m curveFRA = adjust WeekendsOnly 97 Following
   \<and> valueDate_m curveFRA < maturityDate_m curveFRA"
proof -
  have a: "adjust (yts_calendar flatCurve) 97 Preceding = 96"
    by (simp add: flatCurve_def WeekendsOnly_def isWeekend_def previousBusinessDay_def)
  have c: "calendar_m curveFRA = WeekendsOnly \<and> businessDayConvention_m curveFRA = Following"
    by (simp add: curveFRA_def)
  show ?thesis
    using maturity_adjusted_then_checked
      [where v = 96 and m = 97 and t = Long and k = "4 / 100" and n = 1000000
         and ts = flatCurve and fd = 2 and bdc = Preceding and index = None and dc = None
         and u = True and s = curveFRA and ix = fixedIndex]
      maturity_adjusted_then_checked
      [where v = 10 and m = 97 and t = Long and k = "4 / 100" and n = 1000000
         and dc = "Some flatCurve" and fd = "29 / 10" and bdc = Following and s = curveFRA
         and index = None and u = True and ix = fixedIndex and ts = flatCurve]
      curveFRA_constructed a c
    by simp
qed

subsection \<open>The notional at construction\<close>

text \<open>
  Claim C8. A construction with a notional that is not positive fails: with an
  index, or with a discount curve that is not empty, the error is "notionalAmount
  must be positive", and without them the construction fails already in the member
  initialisers. A constructed instrument holds the notional it was given, and that
  notional is positive.
\<close>

theorem notional_must_be_positive:
  "(n \<le> 0 \<longrightarrow>
      ForwardRateAgreement_index v m t k n (Some ix) dc u
        = Inl (RequireFailed ''notionalAmount must be positive'')
      \<and> ForwardRateAgreement_index_tenor v t k n (Some ix) dc u
        = Inl (RequireFailed ''notionalAmount must be positive'')
      \<and> ForwardRateAgreement_curve v m t k n (Some ts) fd bdc
        = Inl (RequireFailed ''notionalAmount must be positive'')
      \<and> isl (ForwardRateAgreement_index v m t k n index dc u)
      \<and> isl (ForwardRateAgreement_index_tenor v t k n index dc u)
      \<and> isl (ForwardRateAgreement_curve v m t k n dc fd bdc))
   \<and> (ForwardRateAgreement_index v m t k n index dc u = Inr s
        \<or> ForwardRateAgreement_index_tenor v t k n index dc u = Inr s
        \<or> ForwardRateAgreement_curve v m t k n dc fd bdc = Inr s
      \<longrightarrow> notionalAmount_m s = n \<and> 0 < notionalAmount_m s)"
  by (auto simp add: ForwardRateAgreement_curve_def ForwardRateAgreement_index_def
      ForwardRateAgreement_index_tenor_def deref_def Let_def
      split: option.splits sum.splits if_splits)

theorem notional_must_be_positive_witness:
  "ForwardRateAgreement_index 10 100 Long (4 / 100) 0 (Some fixedIndex) None True
     = Inl (RequireFailed ''notionalAmount must be positive'')
   \<and> ForwardRateAgreement_curve 10 97 Long (4 / 100) (- 5) (Some flatCurve) 2 Following
     = Inl (RequireFailed ''notionalAmount must be positive'')
   \<and> notionalAmount_m parFRA = 1000000 \<and> 0 < notionalAmount_m parFRA"
  using notional_must_be_positive
      [where n = 0 and v = 10 and m = 100 and t = Long and k = "4 / 100"
         and ix = fixedIndex and dc = None and u = True and ts = flatCurve and fd = 2
         and bdc = Following and index = None and s = parFRA]
    notional_must_be_positive
      [where n = "- 5" and v = 10 and m = 97 and t = Long and k = "4 / 100"
         and ts = flatCurve and fd = 2 and bdc = Following and ix = fixedIndex and dc = None
         and u = True and index = None and s = parFRA]
    notional_must_be_positive
      [where n = 1000000 and v = 10 and m = 100 and t = Long and k = "4 / 100"
         and index = "Some curveIndex" and dc = None and u = False and s = parFRA
         and ix = fixedIndex and ts = flatCurve and fd = 2 and bdc = Following]
    parFRA_constructed
  by simp

subsection \<open>The fixing date of the instrument\<close>

text \<open>
  Claim C9. With an index, \<open>fixingDate()\<close> is the fixing date that the index gives
  for the value date. Without an index it is the value date advanced by minus the
  integer part of \<open>fixingDays_\<close>, in business days, with the calendar and the
  convention of the instrument; for an instrument built from a discount curve these
  are the calendar of the curve and the convention passed to the constructor.
  \<open>fixingDate()\<close> returns a value and no new state, does not depend on the cached
  results, and is the same after a calculation as before it.
\<close>

theorem fixingDate_rule:
  "(index_m s = Some ix \<longrightarrow> fixingDate s = Inr (ibor_fixingDate ix (valueDate_m s)))
   \<and> (index_m s = None \<and> fixingDays_m s = Some fd
        \<and> - (2 ^ 31) < trunc fd \<and> trunc fd < 2 ^ 31 \<longrightarrow>
        fixingDate s
          = Inr (advance (calendar_m s) (valueDate_m s) (- trunc fd) Days
                   (businessDayConvention_m s)))
   \<and> (ForwardRateAgreement_curve v m t k n (Some ts) fd bdc = Inr s
        \<and> - (2 ^ 31) < trunc fd \<and> trunc fd < 2 ^ 31 \<longrightarrow>
        fixingDate s = Inr (advance (yts_calendar ts) v (- trunc fd) Days bdc))
   \<and> fixingDate (s\<lparr>forwardRate_m := a, amount_m := b, NPV_m := c, errorEstimate_m := d,
                    calculated_m := e\<rparr>) = fixingDate s
   \<and> fixingDate (snd (calculate hasOccurred s)) = fixingDate s"
proof -
  have pure: "fixingDate (s\<lparr>forwardRate_m := a, amount_m := b, NPV_m := c, errorEstimate_m := d,
                    calculated_m := e\<rparr>) = fixingDate s
      \<and> fixingDate (snd (calculate hasOccurred s)) = fixingDate s"
    by (simp add: fixingDate_calculate)
  have rule: "(index_m s = Some ix \<longrightarrow> fixingDate s = Inr (ibor_fixingDate ix (valueDate_m s)))
   \<and> (index_m s = None \<and> fixingDays_m s = Some fd
        \<and> - (2 ^ 31) < trunc fd \<and> trunc fd < 2 ^ 31 \<longrightarrow>
        fixingDate s
          = Inr (advance (calendar_m s) (valueDate_m s) (- trunc fd) Days
                   (businessDayConvention_m s)))
   \<and> (ForwardRateAgreement_curve v m t k n (Some ts) fd bdc = Inr s
        \<and> - (2 ^ 31) < trunc fd \<and> trunc fd < 2 ^ 31 \<longrightarrow>
        fixingDate s = Inr (advance (yts_calendar ts) v (- trunc fd) Days bdc))"
    by (auto simp add: fixingDate_def static_cast_Integer_def
        ForwardRateAgreement_curve_def deref_def Let_def split: if_splits)
  from rule pure show ?thesis by blast
qed

theorem fixingDate_rule_witness:
  "fixingDate parFRA = Inr 8 \<and> fixingDate curveFRA = Inr 8
   \<and> fixingDate (snd (calculate (\<lambda>d. d \<le> 9) parFRA)) = Inr 8"
proof -
  have t: "trunc (29 / 10) = 2"
    by (simp add: trunc_def)
  have p: "index_m parFRA = Some curveIndex \<and> valueDate_m parFRA = 10
           \<and> ibor_fixingDate curveIndex 10 = 8"
    by (simp add: parFRA_def curveIndex_def)
  have c: "index_m curveFRA = None \<and> fixingDays_m curveFRA = Some (29 / 10)
           \<and> advance (calendar_m curveFRA) (valueDate_m curveFRA) (- 2) Days
               (businessDayConvention_m curveFRA) = 8"
    by (simp add: curveFRA_def WeekendsOnly_def previousBusinessDay_def isWeekend_def
        eval_nat_numeral)
  show ?thesis
    using fixingDate_rule [where s = parFRA and ix = curveIndex
                             and hasOccurred = "\<lambda>d. d \<le> 9"]
      fixingDate_rule [where s = curveFRA and fd = "29 / 10"] t p c
    by simp
qed

subsection \<open>Fractional fixing days\<close>

text \<open>
  Claim C10. The constructor from a discount curve stores the real \<open>fixingDays\<close> as
  it is given, and \<open>fixingDate()\<close> casts it to \<open>Integer\<close>: for a value that fits, the
  cast yields the integer part, and the fixing date is the value date advanced by
  minus that integer part, in business days, with the calendar and the convention of
  the instrument. The integer part is the one integer that is no larger in absolute
  value than the real and less than one away from it, which is truncation toward
  zero. So an instrument built with a fractional \<open>fixingDays\<close> has the fixing date of
  the instrument built on the same terms with the integer part: from day \<open>10\<close>, \<open>2.9\<close>
  gives day \<open>8\<close> as \<open>2\<close> does, where \<open>3\<close> gives day \<open>5\<close>, and \<open>-2.9\<close> gives day \<open>12\<close>.
\<close>

theorem fixingDays_truncated:
  "(ForwardRateAgreement_curve v m t k n dc fd bdc = Inr s \<longrightarrow>
      index_m s = None
      \<and> fixingDays_m s = Some fd
      \<and> (- (2 ^ 31) < trunc fd \<and> trunc fd < 2 ^ 31 \<longrightarrow>
            static_cast_Integer fd = Inr (trunc fd)
            \<and> fixingDate s
                = Inr (advance (calendar_m s) (valueDate_m s) (- trunc fd) Days
                         (businessDayConvention_m s)))
      \<and> ForwardRateAgreement_curve v m t k n dc (real_of_int (trunc fd)) bdc
          = Inr (s\<lparr>fixingDays_m := Some (real_of_int (trunc fd))\<rparr>)
      \<and> fixingDate s = fixingDate (s\<lparr>fixingDays_m := Some (real_of_int (trunc fd))\<rparr>))
   \<and> \<bar>real_of_int (trunc fd)\<bar> \<le> \<bar>fd\<bar>
   \<and> \<bar>fd - real_of_int (trunc fd)\<bar> < 1
   \<and> (\<bar>real_of_int i\<bar> \<le> \<bar>fd\<bar> \<and> \<bar>fd - real_of_int i\<bar> < 1 \<longrightarrow> i = trunc fd)"
proof -
  have "ForwardRateAgreement_curve v m t k n dc fd bdc = Inr s \<longrightarrow>
      index_m s = None
      \<and> fixingDays_m s = Some fd
      \<and> (- (2 ^ 31) < trunc fd \<and> trunc fd < 2 ^ 31 \<longrightarrow>
            static_cast_Integer fd = Inr (trunc fd)
            \<and> fixingDate s
                = Inr (advance (calendar_m s) (valueDate_m s) (- trunc fd) Days
                         (businessDayConvention_m s)))
      \<and> ForwardRateAgreement_curve v m t k n dc (real_of_int (trunc fd)) bdc
          = Inr (s\<lparr>fixingDays_m := Some (real_of_int (trunc fd))\<rparr>)
      \<and> fixingDate s = fixingDate (s\<lparr>fixingDays_m := Some (real_of_int (trunc fd))\<rparr>)"
    by (auto simp add: ForwardRateAgreement_curve_def deref_def Let_def fixingDate_def
        static_cast_Integer_def split: option.splits sum.splits if_splits)
  with trunc_toward_zero [of fd] trunc_unique [of i fd] show ?thesis by blast
qed

theorem fixingDays_truncated_witness:
  "ForwardRateAgreement_curve 10 97 Long (4 / 100) 1000000 (Some flatCurve) (29 / 10) Following
     = Inr curveFRA
   \<and> trunc (29 / 10) = 2
   \<and> fixingDate curveFRA = Inr 8
   \<and> ForwardRateAgreement_curve 10 97 Long (4 / 100) 1000000 (Some flatCurve) 2 Following
     = Inr (curveFRA\<lparr>fixingDays_m := Some 2\<rparr>)
   \<and> fixingDate (curveFRA\<lparr>fixingDays_m := Some 2\<rparr>) = Inr 8
   \<and> ForwardRateAgreement_curve 10 97 Long (4 / 100) 1000000 (Some flatCurve) 3 Following
     = Inr (curveFRA\<lparr>fixingDays_m := Some 3\<rparr>)
   \<and> fixingDate (curveFRA\<lparr>fixingDays_m := Some 3\<rparr>) = Inr 5
   \<and> ForwardRateAgreement_curve 10 97 Long (4 / 100) 1000000 (Some flatCurve) (- (29 / 10))
       Following
     = Inr (curveFRA\<lparr>fixingDays_m := Some (- (29 / 10))\<rparr>)
   \<and> trunc (- (29 / 10)) = - 2
   \<and> fixingDate (curveFRA\<lparr>fixingDays_m := Some (- (29 / 10))\<rparr>) = Inr 12"
proof -
  have t: "trunc (29 / 10) = 2" "trunc 3 = 3" "trunc (- (29 / 10)) = - 2"
    by (simp_all add: trunc_def)
  have c3: "ForwardRateAgreement_curve 10 97 Long (4 / 100) 1000000 (Some flatCurve) 3 Following
     = Inr (curveFRA\<lparr>fixingDays_m := Some 3\<rparr>)"
    by (simp add: ForwardRateAgreement_curve_def curveFRA_def flatCurve_def WeekendsOnly_def
        deref_def nextBusinessDay_def isWeekend_def mkInterestRate_def Let_def)
  have cn: "ForwardRateAgreement_curve 10 97 Long (4 / 100) 1000000 (Some flatCurve)
       (- (29 / 10)) Following
     = Inr (curveFRA\<lparr>fixingDays_m := Some (- (29 / 10))\<rparr>)"
    by (simp add: ForwardRateAgreement_curve_def curveFRA_def flatCurve_def WeekendsOnly_def
        deref_def nextBusinessDay_def isWeekend_def mkInterestRate_def Let_def)
  have a: "advance (calendar_m curveFRA) (valueDate_m curveFRA) (- 2) Days
             (businessDayConvention_m curveFRA) = 8"
    "advance (calendar_m curveFRA) (valueDate_m curveFRA) (- 3) Days
             (businessDayConvention_m curveFRA) = 5"
    "advance (calendar_m curveFRA) (valueDate_m curveFRA) 2 Days
             (businessDayConvention_m curveFRA) = 12"
    by (simp_all add: curveFRA_def WeekendsOnly_def previousBusinessDay_def
        nextBusinessDay_def isWeekend_def eval_nat_numeral)
  have w1: "fixingDate curveFRA = Inr 8
      \<and> ForwardRateAgreement_curve 10 97 Long (4 / 100) 1000000 (Some flatCurve) 2 Following
          = Inr (curveFRA\<lparr>fixingDays_m := Some 2\<rparr>)
      \<and> fixingDate (curveFRA\<lparr>fixingDays_m := Some 2\<rparr>) = Inr 8"
    using fixingDays_truncated
      [where v = 10 and m = 97 and t = Long and k = "4 / 100" and n = 1000000
         and dc = "Some flatCurve" and fd = "29 / 10" and bdc = Following and s = curveFRA
         and i = 2]
      curveFRA_constructed t a
    by auto
  have w2: "fixingDate (curveFRA\<lparr>fixingDays_m := Some 3\<rparr>) = Inr 5"
    using fixingDays_truncated
      [where v = 10 and m = 97 and t = Long and k = "4 / 100" and n = 1000000
         and dc = "Some flatCurve" and fd = 3 and bdc = Following
         and s = "curveFRA\<lparr>fixingDays_m := Some 3\<rparr>" and i = 3]
      c3 t a
    by simp
  have w3: "fixingDate (curveFRA\<lparr>fixingDays_m := Some (- (29 / 10))\<rparr>) = Inr 12"
    using fixingDays_truncated
      [where v = 10 and m = 97 and t = Long and k = "4 / 100" and n = 1000000
         and dc = "Some flatCurve" and fd = "- (29 / 10)" and bdc = Following
         and s = "curveFRA\<lparr>fixingDays_m := Some (- (29 / 10))\<rparr>" and i = "- 2"]
      cn t a
    by simp
  show ?thesis
    using w1 w2 w3 c3 cn t curveFRA_constructed by simp
qed

end
